theory Spec2Isabelle
  imports
    Main
    "HOL-Library.Multiset"
    "HOL-Library.Char_ord"
    "HOL-Library.List_Lexorder"
    "HOL-Library.Product_Lexorder"
begin

section \<open>Values shared by the exercises\<close>

text \<open>
  Python's \<^verbatim>\<open>str(n)\<close> of an integer, as the f-strings of the exercises print it:
  decimal digits, a leading minus sign for a negative number.
\<close>

definition digit_char :: "nat \<Rightarrow> char" where
  "digit_char d = char_of (48 + d)"

fun str_nat :: "nat \<Rightarrow> string" where
  "str_nat n = (if n < 10 then [digit_char n] else str_nat (n div 10) @ [digit_char (n mod 10)])"

declare str_nat.simps [simp del]

definition str_int :: "int \<Rightarrow> string" where
  "str_int i = (if i < 0 then CHR ''-'' # str_nat (nat (- i)) else str_nat (nat i))"

text \<open>
  A call into a database driver returns a value or raises an exception, and leaves a
  store behind in both cases. The models below follow the calls that they describe;
  for every other call the outcome is \<open>Unmodelled\<close>, which says nothing of the result
  and nothing of the store. Texts of more than 50000 bytes are among the calls not
  followed: the drivers and the servers have limits on the size of what they accept.
\<close>

datatype ('e, 'a, 's) outcome =
  Returns 'a 's
| Raises 'e 's
| Unmodelled


definition short_text :: "string \<Rightarrow> bool" where
  "short_text s \<longleftrightarrow> int (length s) \<le> 50000"


section \<open>ej3a1: the library on sqlite3\<close>

subsection \<open>The connection and its two tables\<close>

text \<open>
  \<^verbatim>\<open>crear_tablas\<close> creates \<^verbatim>\<open>autores(id int primary key, nombre text)\<close> and
  \<^verbatim>\<open>libros(id int primary key, titulo text, anio int, autor_id int, FOREIGN KEY ...)\<close>.
  A connection is modelled after \<^verbatim>\<open>crear_tablas\<close> has run: the rows of each table, in
  rowid order, which is the order of insertion (a new row gets the largest rowid, and
  UPDATE keeps it). The exercise never sets \<^verbatim>\<open>PRAGMA foreign_keys\<close>, so SQLite does not
  enforce the declared foreign key; the primary keys are enforced. A string is the
  UTF-8 encoding of the Python string.
\<close>

record autor_row =
  a_id :: int
  a_nombre :: string

record libro_row =
  l_id :: int
  l_titulo :: string
  l_anio :: int
  l_autor_id :: int

record conexion =
  autores :: "autor_row list"
  libros :: "libro_row list"

text \<open>
  The statements are built by interpolating the arguments into the SQL text, so an
  argument can change the statement that SQLite reads. \<^verbatim>\<open>execute\<close> refuses a
  statement that contains a NUL character with \<^verbatim>\<open>ProgrammingError\<close>, before SQLite
  sees it. A text between two apostrophes is read by SQLite as that very text when it
  has no apostrophe (and no NUL): such a text, of at most 50000 bytes, is called
  plain. An integer is read as an integer from \<open>-2\<^sup>6\<^sup>3\<close> up to \<open>2\<^sup>6\<^sup>3 - 1\<close>;
  beyond that SQLite makes a floating-point number of it, which the model does not
  follow.
\<close>

datatype sqlite_error = IntegrityError | ProgrammingError

type_synonym 'a sqlite_outcome = "(sqlite_error, 'a, conexion) outcome"

definition has_nul :: "string \<Rightarrow> bool" where
  "has_nul s \<longleftrightarrow> CHR 0x00 \<in> set s"

definition has_apostrophe :: "string \<Rightarrow> bool" where
  "has_apostrophe s \<longleftrightarrow> CHR 0x27 \<in> set s"


definition int64 :: "int \<Rightarrow> bool" where
  "int64 n \<longleftrightarrow> - (2 ^ 63) \<le> n \<and> n < 2 ^ 63"

subsection \<open>The statements\<close>


text \<open>\<^verbatim>\<open>INSERT INTO libros (id, titulo, anio, autor_id) VALUES (i, 'tit', anio, autor)\<close>\<close>

definition insert_into_libros ::
  "conexion \<Rightarrow> int \<Rightarrow> string \<Rightarrow> int \<Rightarrow> int \<Rightarrow> unit sqlite_outcome" where
  "insert_into_libros c i tit an au =
     (if \<not> short_text tit then Unmodelled
      else if has_nul tit then Raises ProgrammingError c
      else if \<not> has_apostrophe tit \<and> int64 i \<and> int64 an \<and> int64 au then
        (if i \<in> set (map l_id (libros c)) then Raises IntegrityError c
         else Returns () (c\<lparr>libros := libros c @
                [\<lparr>l_id = i, l_titulo = tit, l_anio = an, l_autor_id = au\<rparr>]\<rparr>))
      else Unmodelled)"

text \<open>
  \<^verbatim>\<open>SELECT libros.titulo, libros.anio, autores.nombre FROM libros JOIN autores
  ON (libros.autor_id = autores.id)\<close>: SQLite scans \<^verbatim>\<open>libros\<close> and searches \<^verbatim>\<open>autores\<close>
  by its primary-key index, so the rows come in the order of \<^verbatim>\<open>libros\<close>. There is no
  ORDER BY.
\<close>

definition join_libros_autores :: "conexion \<Rightarrow> (string \<times> int \<times> string) list" where
  "join_libros_autores c =
     concat (map (\<lambda>l. map (\<lambda>a. (l_titulo l, l_anio l, a_nombre a))
                          (filter (\<lambda>a. l_autor_id l = a_id a) (autores c)))
                 (libros c))"

text \<open>
  SQLite's LIKE takes a pattern of at most 50000 bytes. It works on characters, not
  bytes: a byte from 0xC0 on starts a character
  that takes the continuation bytes (0x80 to 0xBF) after it, any other byte is a
  character by itself. \<open>%\<close> matches any run of characters, \<open>_\<close> exactly one, and any
  other character itself, ASCII letters without regard to case. The first argument is
  the pattern.
\<close>

definition continuation :: "char \<Rightarrow> bool" where
  "continuation ch = (let n = (of_char ch :: nat) in 128 \<le> n \<and> n < 192)"

function utf8_chars :: "string \<Rightarrow> string list" where
  "utf8_chars [] = []"
| "utf8_chars (ch # s) =
     (if 192 \<le> (of_char ch :: nat)
      then (ch # takeWhile continuation s) # utf8_chars (dropWhile continuation s)
      else [ch] # utf8_chars s)"
  by pat_completeness auto
termination
  by (relation "measure length") (auto simp: length_dropWhile_le less_Suc_eq_le)

definition ascii_lower :: "char \<Rightarrow> char" where
  "ascii_lower ch =
     (let n = (of_char ch :: nat)
      in if 65 \<le> n \<and> n \<le> 90 then char_of (n + 32) else ch)"

fun like_match :: "string list \<Rightarrow> string list \<Rightarrow> bool" where
  "like_match [] [] = True"
| "like_match [] (ch # s) = False"
| "like_match (p # ps) [] = (p = ''%'' \<and> like_match ps [])"
| "like_match (p # ps) (ch # s) =
     (if p = ''%'' then like_match ps (ch # s) \<or> like_match (p # ps) s
      else if p = ''_'' then like_match ps s
      else map ascii_lower p = map ascii_lower ch \<and> like_match ps s)"

text \<open>
  \<^verbatim>\<open>UPDATE libros SET titulo = 'tit' WHERE id = i\<close>. A title with an apostrophe ends
  the text at its first apostrophe, and what follows it is read as SQL. Of those
  statements the model follows one family: after the apostrophe the title goes on
  with \<^verbatim>\<open>, anio = anio + \<close>, decimal digits, \<^verbatim>\<open> --\<close> and any characters but a newline.
  The two hyphens start a comment that runs to the end of the statement, so the WHERE
  clause is not read: every row gets the text before the apostrophe as its title, and
  its year increased by the number.
\<close>

definition is_digit :: "char \<Rightarrow> bool" where
  "is_digit ch = (let n = (of_char ch :: nat) in 48 \<le> n \<and> n \<le> 57)"

definition int_of_digits :: "string \<Rightarrow> int" where
  "int_of_digits ds = foldl (\<lambda>n ch. 10 * n + (of_char ch - 48)) 0 ds"

definition injected_increment :: "string \<Rightarrow> int option" where
  "injected_increment after =
     (let pre = '', anio = anio + '';
          ds = takeWhile is_digit (drop (length pre) after);
          cm = dropWhile is_digit (drop (length pre) after)
      in if take (length pre) after = pre \<and> ds \<noteq> [] \<and> take 3 cm = '' --'' \<and> CHR 0x0A \<notin> set cm
         then Some (int_of_digits ds) else None)"

definition update_titulo :: "conexion \<Rightarrow> int \<Rightarrow> string \<Rightarrow> unit sqlite_outcome" where
  "update_titulo c i tit =
     (if \<not> short_text tit then Unmodelled
      else if has_nul tit then Raises ProgrammingError c
      else if \<not> has_apostrophe tit then
        (if int64 i
         then Returns () (c\<lparr>libros :=
                map (\<lambda>l. if l_id l = i then l\<lparr>l_titulo := tit\<rparr> else l) (libros c)\<rparr>)
         else Unmodelled)
      else
        (case injected_increment (drop 1 (dropWhile (\<lambda>ch. ch \<noteq> CHR 0x27) tit)) of
           None \<Rightarrow> Unmodelled
         | Some k \<Rightarrow>
             if int64 k \<and> list_all (\<lambda>l. int64 (l_anio l + k)) (libros c)
             then Returns () (c\<lparr>libros :=
                    map (\<lambda>l. l\<lparr>l_titulo := takeWhile (\<lambda>ch. ch \<noteq> CHR 0x27) tit,
                               l_anio := l_anio l + k\<rparr>) (libros c)\<rparr>)
             else Unmodelled))"

text \<open>
  \<^verbatim>\<open>UPDATE libros SET anio = 'n' WHERE id = i\<close>: the number is written between
  apostrophes, and the column's integer affinity stores it as the integer again.
\<close>

definition update_anio :: "conexion \<Rightarrow> int \<Rightarrow> int \<Rightarrow> unit sqlite_outcome" where
  "update_anio c i an =
     (if int64 i \<and> int64 an
      then Returns () (c\<lparr>libros :=
             map (\<lambda>l. if l_id l = i then l\<lparr>l_anio := an\<rparr> else l) (libros c)\<rparr>)
      else Unmodelled)"


subsection \<open>The functions of the exercise\<close>



fun insertar_libros_desde ::
  "nat \<Rightarrow> conexion \<Rightarrow> (string \<times> int \<times> int) list \<Rightarrow> unit sqlite_outcome" where
  "insertar_libros_desde i c [] = Returns () c"
| "insertar_libros_desde i c ((tit, an, au) # resto) =
     (case insert_into_libros c (int i + 1) tit an au of
        Returns u c' \<Rightarrow> insertar_libros_desde (Suc i) c' resto
      | Raises e c' \<Rightarrow> Raises e c'
      | Unmodelled \<Rightarrow> Unmodelled)"

definition ej3a1_insertar_libros ::
  "conexion \<Rightarrow> (string \<times> int \<times> int) list \<Rightarrow> unit sqlite_outcome" where
  "ej3a1_insertar_libros c libros_nuevos = insertar_libros_desde 0 c libros_nuevos"

text \<open>
  \<^verbatim>\<open>consultar_libros\<close> prints one line per row of the join,
  \<^verbatim>\<open>f"{book[0]}: Publicado por {book[2]} en {book[1]}"\<close>; the model returns the lines.
\<close>

definition linea_ej3a1 :: "string \<times> int \<times> string \<Rightarrow> string" where
  "linea_ej3a1 book =
     (case book of (tit, an, nom) \<Rightarrow> tit @ '': Publicado por '' @ nom @ '' en '' @ str_int an)"

definition ej3a1_consultar_libros :: "conexion \<Rightarrow> string list" where
  "ej3a1_consultar_libros c = map linea_ej3a1 (join_libros_autores c)"

text \<open>
  \<^verbatim>\<open>buscar_libros_por_autor\<close> returns \<^verbatim>\<open>fetchall()\<close> of the join restricted by
  \<^verbatim>\<open>WHERE autores.nombre Like '{nombre_autor}'\<close>: rows of three columns.
\<close>

definition ej3a1_buscar_libros_por_autor ::
  "conexion \<Rightarrow> string \<Rightarrow> ((string \<times> int \<times> string) list) sqlite_outcome" where
  "ej3a1_buscar_libros_por_autor c nombre_autor =
     (if \<not> short_text nombre_autor then Unmodelled
      else if has_nul nombre_autor then Raises ProgrammingError c
      else if \<not> has_apostrophe nombre_autor then
        Returns (filter (\<lambda>(tit, an, nom). like_match (utf8_chars nombre_autor) (utf8_chars nom))
                        (join_libros_autores c)) c
      else Unmodelled)"

text \<open>
  \<^verbatim>\<open>if nuevo_titulo: ...\<close> and \<^verbatim>\<open>if nuevo_anio: ...\<close> test Python truthiness: \<^verbatim>\<open>None\<close>,
  the empty string and the number 0 are false. The function returns nothing.
\<close>

definition ej3a1_actualizar_libro ::
  "conexion \<Rightarrow> int \<Rightarrow> string option \<Rightarrow> int option \<Rightarrow> unit sqlite_outcome" where
  "ej3a1_actualizar_libro c id_libro nuevo_titulo nuevo_anio =
     (case (case nuevo_titulo of
              None \<Rightarrow> Returns () c
            | Some tit \<Rightarrow> if tit \<noteq> [] then update_titulo c id_libro tit else Returns () c) of
        Returns u c' \<Rightarrow>
          (case nuevo_anio of
             None \<Rightarrow> Returns () c'
           | Some an \<Rightarrow> if an \<noteq> 0 then update_anio c' id_libro an else Returns () c')
      | Raises e c' \<Rightarrow> Raises e c'
      | Unmodelled \<Rightarrow> Unmodelled)"



section \<open>ej3a4: the library on MongoDB\<close>

subsection \<open>ObjectIds\<close>

text \<open>
  A \<^verbatim>\<open>bson.ObjectId\<close> is a string of bytes. \<^verbatim>\<open>ObjectId(s)\<close> of a Python string accepts
  exactly the strings of 24 characters that \<^verbatim>\<open>bytes.fromhex\<close> reads and raises
  \<^verbatim>\<open>InvalidId\<close> on every other one. \<^verbatim>\<open>bytes.fromhex\<close> reads two hexadecimal digits per
  byte and skips ASCII whitespace between bytes, so a string of 24 hexadecimal digits
  gives the twelve bytes of an id that the driver can send.
\<close>

datatype objectid = ObjectId (binary: "nat list")

datatype mongo_error = InvalidId | OverflowError

definition hex_value :: "char \<Rightarrow> nat option" where
  "hex_value ch =
     (let n = (of_char ch :: nat)
      in if 48 \<le> n \<and> n \<le> 57 then Some (n - 48)
         else if 97 \<le> n \<and> n \<le> 102 then Some (n - 87)
         else if 65 \<le> n \<and> n \<le> 70 then Some (n - 55)
         else None)"

definition ascii_space :: "char \<Rightarrow> bool" where
  "ascii_space ch = (let n = (of_char ch :: nat) in n = 32 \<or> (9 \<le> n \<and> n \<le> 13))"

fun fromhex :: "string \<Rightarrow> nat list option" where
  "fromhex [] = Some []"
| "fromhex [ch] = (if ascii_space ch then Some [] else None)"
| "fromhex (ch # d # rest) =
     (if ascii_space ch then fromhex (d # rest)
      else (case (hex_value ch, hex_value d) of
              (Some hi, Some lo) \<Rightarrow> map_option ((#) (16 * hi + lo)) (fromhex rest)
            | _ \<Rightarrow> None))"

definition objectid_of_str :: "string \<Rightarrow> mongo_error + objectid" where
  "objectid_of_str s =
     (if length s = 24 then (case fromhex s of Some bs \<Rightarrow> Inr (ObjectId bs) | None \<Rightarrow> Inl InvalidId)
      else Inl InvalidId)"

subsection \<open>The database\<close>

text \<open>
  The collections \<^verbatim>\<open>autores\<close> and \<^verbatim>\<open>libros\<close> hold the documents that the exercise
  writes: \<^verbatim>\<open>{_id, nombre}\<close> and \<^verbatim>\<open>{_id, titulo, anio, autor_id}\<close>.
\<close>

record autor_doc =
  autor_oid :: objectid
  autor_nombre :: string

record libro_doc =
  libro_oid :: objectid
  libro_titulo :: string
  libro_anio :: int
  libro_autor_id :: objectid

record database =
  db_autores :: "autor_doc list"
  db_libros :: "libro_doc list"

type_synonym 'a mongo_outcome = "(mongo_error, 'a, database) outcome"

subsection \<open>The driver's operations\<close>

text \<open>
  \<^verbatim>\<open>update_one({"_id": oid}, {"$set": campos})\<close> is followed for an id of twelve
  bytes and a title of at most 50000 bytes. The driver encodes the command before it
  sends it: an integer that does not fit eight bytes raises \<^verbatim>\<open>OverflowError\<close> and
  nothing reaches the server. Otherwise the first document with that \<^verbatim>\<open>_id\<close> is
  changed; \<^verbatim>\<open>modified_count\<close> is 1 when there is one and the update changed it,
  else 0.
\<close>

definition bson_int64 :: "int \<Rightarrow> bool" where
  "bson_int64 n \<longleftrightarrow> - (2 ^ 63) \<le> n \<and> n < 2 ^ 63"

definition set_campos :: "string option \<Rightarrow> int option \<Rightarrow> libro_doc \<Rightarrow> libro_doc" where
  "set_campos tit an l =
     (let l1 = (case tit of None \<Rightarrow> l | Some t \<Rightarrow> l\<lparr>libro_titulo := t\<rparr>)
      in (case an of None \<Rightarrow> l1 | Some a \<Rightarrow> l1\<lparr>libro_anio := a\<rparr>))"

fun update_first :: "objectid \<Rightarrow> (libro_doc \<Rightarrow> libro_doc) \<Rightarrow> libro_doc list \<Rightarrow> nat \<times> libro_doc list" where
  "update_first oid f [] = (0, [])"
| "update_first oid f (l # ls) =
     (if libro_oid l = oid then ((if f l = l then 0 else 1), f l # ls)
      else (case update_first oid f ls of (n, ls') \<Rightarrow> (n, l # ls')))"

definition libros_update_one ::
  "database \<Rightarrow> objectid \<Rightarrow> string option \<Rightarrow> int option \<Rightarrow> nat mongo_outcome" where
  "libros_update_one db oid tit an =
     (if length (binary oid) = 12 \<and> (case tit of None \<Rightarrow> True | Some t \<Rightarrow> short_text t)
      then
        (if (case an of None \<Rightarrow> True | Some n \<Rightarrow> bson_int64 n)
         then (case update_first oid (set_campos tit an) (db_libros db) of
                 (modified_count, ls) \<Rightarrow> Returns modified_count (db\<lparr>db_libros := ls\<rparr>))
         else Raises OverflowError db)
      else Unmodelled)"



text \<open>
  A \<^verbatim>\<open>$sort\<close> stage returns its input ordered by the sort key. MongoDB does not say
  in which order it returns documents of equal key, so the stage is a parameter of the
  functions that aggregate: any function that permutes its input into key order.
  Strings compare byte by byte, numbers by value.
\<close>

definition sort_stage :: "('a \<Rightarrow> 'k::linorder) \<Rightarrow> ('a list \<Rightarrow> 'a list) \<Rightarrow> bool" where
  "sort_stage key srt \<longleftrightarrow> (\<forall>xs. mset (srt xs) = mset xs \<and> sorted (map key (srt xs)))"

subsection \<open>The functions of the exercise\<close>

text \<open>
  The pipeline of \<^verbatim>\<open>consultar_libros\<close>: \<^verbatim>\<open>$lookup\<close> gives each book the array of the
  authors whose \<^verbatim>\<open>_id\<close> is its \<^verbatim>\<open>autor_id\<close>, \<^verbatim>\<open>$unwind\<close> makes one document per element
  of that array (none for an empty array), \<^verbatim>\<open>$project\<close> keeps title, year and the
  author's name, \<^verbatim>\<open>$sort\<close> orders by author's name, then title. Each result is
  printed as \<^verbatim>\<open>f"{libro['titulo']} ({libro['anio']}) - {libro['autor_nombre']}"\<close>.
\<close>

definition lookup_unwind_project :: "database \<Rightarrow> (string \<times> int \<times> string) list" where
  "lookup_unwind_project db =
     concat (map (\<lambda>l. map (\<lambda>a. (libro_titulo l, libro_anio l, autor_nombre a))
                          (filter (\<lambda>a. autor_oid a = libro_autor_id l) (db_autores db)))
                 (db_libros db))"

definition autor_nombre_titulo :: "string \<times> int \<times> string \<Rightarrow> string \<times> string" where
  "autor_nombre_titulo r = (case r of (tit, an, nom) \<Rightarrow> (nom, tit))"

definition linea_ej3a4 :: "string \<times> int \<times> string \<Rightarrow> string" where
  "linea_ej3a4 libro =
     (case libro of (tit, an, nom) \<Rightarrow> tit @ '' ('' @ str_int an @ '') - '' @ nom)"

definition ej3a4_consultar_libros ::
  "((string \<times> int \<times> string) list \<Rightarrow> (string \<times> int \<times> string) list) \<Rightarrow>
   database \<Rightarrow> string list" where
  "ej3a4_consultar_libros srt db = map linea_ej3a4 (srt (lookup_unwind_project db))"

text \<open>
  \<^verbatim>\<open>actualizar_libro\<close> collects the arguments that are not \<^verbatim>\<open>None\<close>, returns \<^verbatim>\<open>True\<close>
  at once when there is none, and otherwise converts the id, updates and returns
  \<^verbatim>\<open>modified_count > 0\<close>.
\<close>


definition ej3a4_actualizar_libro ::
  "database \<Rightarrow> string \<Rightarrow> string option \<Rightarrow> int option \<Rightarrow> bool mongo_outcome" where
  "ej3a4_actualizar_libro db id_libro nuevo_titulo nuevo_anio =
     (if nuevo_titulo = None \<and> nuevo_anio = None then Returns True db
      else (case objectid_of_str id_libro of
              Inl e \<Rightarrow> Raises e db
            | Inr oid \<Rightarrow>
                (case libros_update_one db oid nuevo_titulo nuevo_anio of
                   Returns modified_count db' \<Rightarrow> Returns (modified_count > 0) db'
                 | Raises e db' \<Rightarrow> Raises e db'
                 | Unmodelled \<Rightarrow> Unmodelled)))"



section \<open>ej3b3: the REST interface with schema validation\<close>

text \<open>
  In \<^verbatim>\<open>ej3b3.py\<close> the view functions \<^verbatim>\<open>add_author\<close> and \<^verbatim>\<open>add_book\<close>, and the
  methods \<^verbatim>\<open>load_schema\<close>, \<^verbatim>\<open>check_schema\<close> and \<^verbatim>\<open>to_dict\<close> of the models, have the
  body \<^verbatim>\<open>pass\<close>: they read nothing, write nothing and return \<^verbatim>\<open>None\<close>. A JSON payload
  is a list of keys with their values; a view returns \<^verbatim>\<open>None\<close> or a body with a
  status. Flask has no response for a view that returned \<^verbatim>\<open>None\<close>: it raises
  \<^verbatim>\<open>TypeError\<close> (the view "did not return a valid response").
\<close>

datatype json = JString string | JNumber int | JNull

type_synonym payload = "(string \<times> json) list"

datatype view_result = ViewNone | ViewResponse payload nat

definition ej3b3_add_author :: "string list \<Rightarrow> payload \<Rightarrow> view_result \<times> string list" where
  "ej3b3_add_author authors data = (ViewNone, authors)"


section \<open>Book creation and the Author store\<close>

text \<open>
  C1 at a book whose author does not exist: \<^verbatim>\<open>insertar_libros\<close> of ej3a1 on a
  connection without any author stores the book with the \<^verbatim>\<open>autor_id\<close> 999 and returns
  normally. The foreign key that \<^verbatim>\<open>crear_tablas\<close> declares is not enforced, and the
  function makes no check of its own.
\<close>

theorem C1_dangling_author_is_persisted:
  "ej3a1_insertar_libros \<lparr>autores = [], libros = []\<rparr> [(''Test Book'', 2000, 999)] =
     Returns () \<lparr>autores = [],
                 libros = [\<lparr>l_id = 1, l_titulo = ''Test Book'', l_anio = 2000, l_autor_id = 999\<rparr>]\<rparr>"
  by (simp add: ej3a1_insertar_libros_def insert_into_libros_def short_text_def has_nul_def
      has_apostrophe_def int64_def)


section \<open>Schema validation of the author payload\<close>

text \<open>
  C2 at the payload of \<^verbatim>\<open>test_add_author_invalid_extra_field\<close>: \<^verbatim>\<open>add_author\<close> returns
  \<^verbatim>\<open>None\<close>, not a response of status 400, whatever the payload.
\<close>

theorem C2_add_author_returns_none:
  "ej3b3_add_author [''Gabriel Garcia Marquez'', ''Isabel Allende'']
     [(''name'', JString ''Ernest Hemingway''), (''age'', JNumber 61)] =
     (ViewNone, [''Gabriel Garcia Marquez'', ''Isabel Allende''])"
  by (simp add: ej3b3_add_author_def)


section \<open>Partial updates\<close>

text \<open>
  C3 at a falsy value: in ej3a1 the year 0 and the empty title are supplied and the
  book keeps its year 1994 and its title.
\<close>

theorem C3_falsy_values_are_ignored:
  "ej3a1_actualizar_libro
     \<lparr>autores = [\<lparr>a_id = 2, a_nombre = ''Isabel Allende''\<rparr>],
      libros = [\<lparr>l_id = 4, l_titulo = ''Paula'', l_anio = 1994, l_autor_id = 2\<rparr>]\<rparr>
     4 (Some []) (Some 0) =
   Returns ()
    \<lparr>autores = [\<lparr>a_id = 2, a_nombre = ''Isabel Allende''\<rparr>],
     libros = [\<lparr>l_id = 4, l_titulo = ''Paula'', l_anio = 1994, l_autor_id = 2\<rparr>]\<rparr>"
  by (simp add: ej3a1_actualizar_libro_def)

text \<open>
  C10: in ej3a4, \<^verbatim>\<open>actualizar_libro\<close> with neither a title nor a year returns \<^verbatim>\<open>True\<close>
  and the database as it was, for every database and every id string: the id is not
  converted and no collection is read or written.
\<close>

theorem C10_actualizar_sin_campos:
  "ej3a4_actualizar_libro db id_libro None None = Returns True db"
  by (simp add: ej3a4_actualizar_libro_def)


section \<open>Updates and deletions\<close>

















section \<open>Identifiers of inserted rows\<close>












section \<open>Listing books with their authors\<close>

lemma filter_find:
  "length (filter P xs) \<le> 1 \<Longrightarrow> filter P xs = (case find P xs of None \<Rightarrow> [] | Some x \<Rightarrow> [x])"
  by (induction xs) auto


lemma find_single:
  "length (filter P xs) = 1 \<Longrightarrow> \<exists>x. find P xs = Some x"
  by (induction xs) (auto split: if_splits)

lemma concat_map_option:
  "concat (map (\<lambda>x. case g x of None \<Rightarrow> [] | Some y \<Rightarrow> [h x y]) xs) =
   map (\<lambda>x. h x (the (g x))) xs" if "\<forall>x \<in> set xs. \<exists>y. g x = Some y"
  using that by (induction xs) auto

lemma join_libros_autores_find:
  assumes "\<forall>l \<in> set (libros c). length (filter (\<lambda>a. a_id a = l_autor_id l) (autores c)) \<le> 1"
  shows "join_libros_autores c =
     concat (map (\<lambda>l. case find (\<lambda>a. a_id a = l_autor_id l) (autores c) of
                         None \<Rightarrow> []
                       | Some a \<Rightarrow> [(l_titulo l, l_anio l, a_nombre a)]) (libros c))"
proof -
  have "map (\<lambda>a. (l_titulo l, l_anio l, a_nombre a)) (filter (\<lambda>a. l_autor_id l = a_id a) (autores c)) =
        (case find (\<lambda>a. a_id a = l_autor_id l) (autores c) of
           None \<Rightarrow> [] | Some a \<Rightarrow> [(l_titulo l, l_anio l, a_nombre a)])"
    if "l \<in> set (libros c)" for l
  proof -
    have eq: "(\<lambda>a. l_autor_id l = a_id a) = (\<lambda>a. a_id a = l_autor_id l)" by auto
    from that assms have "length (filter (\<lambda>a. a_id a = l_autor_id l) (autores c)) \<le> 1" by blast
    from filter_find [OF this] show ?thesis
      by (simp add: eq split: option.splits)
  qed
  then show ?thesis
    by (simp add: join_libros_autores_def cong: map_cong)
qed

lemma lookup_unwind_project_find:
  assumes "\<forall>l \<in> set (db_libros db).
             length (filter (\<lambda>a. autor_oid a = libro_autor_id l) (db_autores db)) \<le> 1"
  shows "lookup_unwind_project db =
     concat (map (\<lambda>l. case find (\<lambda>a. autor_oid a = libro_autor_id l) (db_autores db) of
                         None \<Rightarrow> []
                       | Some a \<Rightarrow> [(libro_titulo l, libro_anio l, autor_nombre a)]) (db_libros db))"
proof -
  have "map (\<lambda>a. (libro_titulo l, libro_anio l, autor_nombre a))
            (filter (\<lambda>a. autor_oid a = libro_autor_id l) (db_autores db)) =
        (case find (\<lambda>a. autor_oid a = libro_autor_id l) (db_autores db) of
           None \<Rightarrow> [] | Some a \<Rightarrow> [(libro_titulo l, libro_anio l, autor_nombre a)])"
    if "l \<in> set (db_libros db)" for l
  proof -
    from that assms
    have "length (filter (\<lambda>a. autor_oid a = libro_autor_id l) (db_autores db)) \<le> 1" by blast
    from filter_find [OF this] show ?thesis
      by (simp split: option.splits)
  qed
  then show ?thesis
    by (simp add: lookup_unwind_project_def cong: map_cong)
qed

lemma sort_key_sort_stage: "sort_stage key (sort_key key)"
  by (simp add: sort_stage_def)



text \<open>
  C5 at two books of one author in ej3a1: \<^verbatim>\<open>buscar_libros_por_autor\<close> returns rows of
  three columns (title, year, author's name), in the order of the books table, here
  1949 before 1944.
\<close>

theorem C5_rows_of_three_columns_unsorted:
  "ej3a1_buscar_libros_por_autor
     \<lparr>autores = [\<lparr>a_id = 3, a_nombre = ''Jorge Luis Borges''\<rparr>],
      libros = [\<lparr>l_id = 1, l_titulo = ''El Aleph'', l_anio = 1949, l_autor_id = 3\<rparr>,
                \<lparr>l_id = 2, l_titulo = ''Ficciones'', l_anio = 1944, l_autor_id = 3\<rparr>]\<rparr>
     ''Jorge Luis Borges'' =
   Returns [(''El Aleph'', 1949, ''Jorge Luis Borges''), (''Ficciones'', 1944, ''Jorge Luis Borges'')]
     \<lparr>autores = [\<lparr>a_id = 3, a_nombre = ''Jorge Luis Borges''\<rparr>],
      libros = [\<lparr>l_id = 1, l_titulo = ''El Aleph'', l_anio = 1949, l_autor_id = 3\<rparr>,
                \<lparr>l_id = 2, l_titulo = ''Ficciones'', l_anio = 1944, l_autor_id = 3\<rparr>]\<rparr>"
  by code_simp



lemma linea_ej3a1_ficciones:
  "linea_ej3a1 (''Ficciones'', 1944, ''Jorge Luis Borges'') =
   ''Ficciones: Publicado por Jorge Luis Borges en 1944''"
  by code_simp

lemma linea_ej3a1_paula:
  "linea_ej3a1 (''Paula'', 1994, ''Isabel Allende'') =
   ''Paula: Publicado por Isabel Allende en 1994''"
  by code_simp

lemma linea_ej3a4_ficciones:
  "linea_ej3a4 (''Ficciones'', 1944, ''Jorge Luis Borges'') =
   ''Ficciones (1944) - Jorge Luis Borges''"
  by code_simp

lemma linea_ej3a4_paula:
  "linea_ej3a4 (''Paula'', 1994, ''Isabel Allende'') = ''Paula (1994) - Isabel Allende''"
  by code_simp


text \<open>
  C7: when the \<^verbatim>\<open>autor_id\<close> of every book is the id of exactly one author,
  \<^verbatim>\<open>consultar_libros\<close> prints exactly one line per book, with the name of that
  author: in ej3a1 the lines of the books in table order, in ej3a4 the same lines as a
  multiset (their order is the \<^verbatim>\<open>$sort\<close> stage's).
\<close>

theorem C7_one_author_name_per_book:
  assumes "\<forall>l \<in> set (libros c). length (filter (\<lambda>a. a_id a = l_autor_id l) (autores c)) = 1"
    and "\<forall>l \<in> set (db_libros db).
           length (filter (\<lambda>a. autor_oid a = libro_autor_id l) (db_autores db)) = 1"
    and "sort_stage autor_nombre_titulo srt"
  shows "ej3a1_consultar_libros c =
           map (\<lambda>l. linea_ej3a1 (l_titulo l, l_anio l,
                       a_nombre (the (find (\<lambda>a. a_id a = l_autor_id l) (autores c)))))
               (libros c)
       \<and> mset (ej3a4_consultar_libros srt db) =
           mset (map (\<lambda>l. linea_ej3a4 (libro_titulo l, libro_anio l,
                       autor_nombre (the (find (\<lambda>a. autor_oid a = libro_autor_id l) (db_autores db)))))
                     (db_libros db))"
proof
  have "\<forall>l \<in> set (libros c). \<exists>a. find (\<lambda>a. a_id a = l_autor_id l) (autores c) = Some a"
    using assms(1) find_single by fast
  then have "join_libros_autores c =
      map (\<lambda>l. (l_titulo l, l_anio l,
                  a_nombre (the (find (\<lambda>a. a_id a = l_autor_id l) (autores c))))) (libros c)"
    using assms(1)
    by (simp add: join_libros_autores_find
        concat_map_option [where h = "\<lambda>l a. (l_titulo l, l_anio l, a_nombre a)"])
  then show "ej3a1_consultar_libros c =
           map (\<lambda>l. linea_ej3a1 (l_titulo l, l_anio l,
                       a_nombre (the (find (\<lambda>a. a_id a = l_autor_id l) (autores c)))))
               (libros c)"
    by (simp add: ej3a1_consultar_libros_def comp_def)
next
  have "\<forall>l \<in> set (db_libros db).
          \<exists>a. find (\<lambda>a. autor_oid a = libro_autor_id l) (db_autores db) = Some a"
    using assms(2) find_single by fast
  then have rows: "lookup_unwind_project db =
      map (\<lambda>l. (libro_titulo l, libro_anio l,
                  autor_nombre (the (find (\<lambda>a. autor_oid a = libro_autor_id l) (db_autores db)))))
          (db_libros db)"
    using assms(2)
    by (simp add: lookup_unwind_project_find
        concat_map_option [where h = "\<lambda>l a. (libro_titulo l, libro_anio l, autor_nombre a)"])
  have "mset (srt (lookup_unwind_project db)) = mset (lookup_unwind_project db)"
    using assms(3) by (simp add: sort_stage_def)
  then have "mset (ej3a4_consultar_libros srt db) =
      image_mset linea_ej3a4 (mset (lookup_unwind_project db))"
    by (simp add: ej3a4_consultar_libros_def)
  then show "mset (ej3a4_consultar_libros srt db) =
           mset (map (\<lambda>l. linea_ej3a4 (libro_titulo l, libro_anio l,
                       autor_nombre (the (find (\<lambda>a. autor_oid a = libro_autor_id l) (db_autores db)))))
                     (db_libros db))"
    by (simp add: rows comp_def multiset.map_comp)
qed

text \<open>
  An instance of C7's theorem: two books, each with its one author.
\<close>

theorem C7_one_author_name_per_book_witness:
  "ej3a1_consultar_libros
     \<lparr>autores = [\<lparr>a_id = 2, a_nombre = ''Isabel Allende''\<rparr>,
                 \<lparr>a_id = 3, a_nombre = ''Jorge Luis Borges''\<rparr>],
      libros = [\<lparr>l_id = 1, l_titulo = ''Ficciones'', l_anio = 1944, l_autor_id = 3\<rparr>,
                \<lparr>l_id = 2, l_titulo = ''Paula'', l_anio = 1994, l_autor_id = 2\<rparr>]\<rparr> =
     [''Ficciones: Publicado por Jorge Luis Borges en 1944'',
      ''Paula: Publicado por Isabel Allende en 1994'']
   \<and> mset (ej3a4_consultar_libros (sort_key autor_nombre_titulo)
       \<lparr>db_autores = [\<lparr>autor_oid = ObjectId [0,0,0,0,0,0,0,0,0,0,0,0], autor_nombre = ''Isabel Allende''\<rparr>,
                      \<lparr>autor_oid = ObjectId [0,0,0,0,0,0,0,0,0,0,0,1], autor_nombre = ''Jorge Luis Borges''\<rparr>],
        db_libros = [\<lparr>libro_oid = ObjectId [0,0,0,0,0,0,0,0,0,0,0,2], libro_titulo = ''Ficciones'',
                       libro_anio = 1944, libro_autor_id = ObjectId [0,0,0,0,0,0,0,0,0,0,0,1]\<rparr>,
                     \<lparr>libro_oid = ObjectId [0,0,0,0,0,0,0,0,0,0,0,3], libro_titulo = ''Paula'',
                       libro_anio = 1994, libro_autor_id = ObjectId [0,0,0,0,0,0,0,0,0,0,0,0]\<rparr>]\<rparr>) =
     mset [''Ficciones (1944) - Jorge Luis Borges'', ''Paula (1994) - Isabel Allende'']"
  using C7_one_author_name_per_book [OF _ _ sort_key_sort_stage, of
     "\<lparr>autores = [\<lparr>a_id = 2, a_nombre = ''Isabel Allende''\<rparr>,
                 \<lparr>a_id = 3, a_nombre = ''Jorge Luis Borges''\<rparr>],
      libros = [\<lparr>l_id = 1, l_titulo = ''Ficciones'', l_anio = 1944, l_autor_id = 3\<rparr>,
                \<lparr>l_id = 2, l_titulo = ''Paula'', l_anio = 1994, l_autor_id = 2\<rparr>]\<rparr>"
     "\<lparr>db_autores = [\<lparr>autor_oid = ObjectId [0,0,0,0,0,0,0,0,0,0,0,0], autor_nombre = ''Isabel Allende''\<rparr>,
                      \<lparr>autor_oid = ObjectId [0,0,0,0,0,0,0,0,0,0,0,1], autor_nombre = ''Jorge Luis Borges''\<rparr>],
        db_libros = [\<lparr>libro_oid = ObjectId [0,0,0,0,0,0,0,0,0,0,0,2], libro_titulo = ''Ficciones'',
                       libro_anio = 1944, libro_autor_id = ObjectId [0,0,0,0,0,0,0,0,0,0,0,1]\<rparr>,
                     \<lparr>libro_oid = ObjectId [0,0,0,0,0,0,0,0,0,0,0,3], libro_titulo = ''Paula'',
                       libro_anio = 1994, libro_autor_id = ObjectId [0,0,0,0,0,0,0,0,0,0,0,0]\<rparr>]\<rparr>"]
  by (simp add: linea_ej3a1_ficciones linea_ej3a1_paula linea_ej3a4_ficciones linea_ej3a4_paula)

end
